theory Spec2Isabelle
  imports Main "HOL-Library.AList" "HOL-Library.Multiset"
begin

section \<open>The mail server\<close>

text \<open>
  A shallow embedding of the class \<open>Server\<close>. A socket object is identified by a
  number (Python compares sockets by identity). The dictionary \<open>_logged_users\<close> is
  an association list in insertion order: the source stores \<open>username \<mapsto> socket\<close>
  in it. A Python string is a \<open>string\<close>, one \<open>char\<close> per character and per
  byte of a file name.

  The data directory is a tree of two levels below \<open>SERVER_DATA_DIR\<close>: one directory
  per name, holding files and subdirectories of files. The order in which
  \<open>os.listdir\<close> enumerates a directory is not stored: it is chosen by the
  environment, as a ranking of the names. Paths follow POSIX on a file system whose
  names are at most 255 bytes long. A name with a slash or a NUL character, and the
  destination \<open>..\<close>, lead out of these two levels: there the model stops with
  \<open>Outside_Model\<close> and says nothing about the code. The lost-mail directory is kept
  apart from the data directory.
\<close>

subsection \<open>Messages\<close>

type_synonym sock = nat

text \<open>\<open>gloutils.Headers\<close>, by the names the two source files use.\<close>

datatype headers =
  OK | ERROR | BYE | AUTH_REGISTER | AUTH_LOGIN | AUTH_LOGOUT
  | INBOX_READING_REQUEST | INBOX_READING_CHOICE | EMAIL_SENDING | STATS_REQUEST

text \<open>
  The payload dictionaries of \<open>gloutils\<close>: \<open>AuthPayload(username, password)\<close>,
  \<open>EmailChoicePayload(choice)\<close>,
  \<open>EmailContentPayload(sender, destination, subject, date, content)\<close>,
  \<open>StatsPayload(count, size)\<close>, and the string an ERROR message carries.
\<close>

datatype payload =
  AuthPayload string string
  | EmailChoicePayload int
  | EmailContentPayload string string string string string
  | StatsPayload int int
  | Reason string

text \<open>\<open>gloutils.GloMessage(header=..., payload=...)\<close>; both keys are optional.\<close>

datatype glo_message = GloMessage "headers option" "payload option"

text \<open>
  \<open>gloutils.SUBJECT_DISPLAY.format(number=str(o + 1), sender=..., subject=..., date=...)\<close>:
  the template itself is not in the source files, the line is kept as its four arguments.
\<close>

datatype display = SUBJECT_DISPLAY nat string string string

text \<open>The password file holds \<open>hashlib.sha3_224(password.encode('utf-8')).hexdigest()\<close>.\<close>

datatype digest = Sha3_224 string

text \<open>
  The text of a file: the digest in a password file, or the \<open>json.dumps\<close> of the
  payload in the file of an email.
\<close>

datatype content = Digest_Text digest | Json_Text payload

text \<open>
  What \<open>glosocket.send_msg\<close> is given: the \<open>json.dumps\<close> of a message, of
  \<open>None\<close>, of a list of display lines or of the statistics dictionary, or the text
  read from a file.
\<close>

datatype frame =
  Json_Message glo_message
  | Json_Null
  | Json_List "display list"
  | Json_Stats nat nat
  | File_Text content

text \<open>
  The exceptions of Python, and \<open>Outside_Model\<close> for a path that leaves the two
  directory levels of the model.
\<close>

datatype error =
  AttributeError | KeyError | TypeError | FileNotFoundError | IsADirectoryError
  | NotADirectoryError | RuntimeError | ValueError | JSONDecodeError | GLOSocketError
  | OSError | KeyboardInterrupt | Outside_Model

subsection \<open>The state of the server\<close>

text \<open>
  An entry of a directory below \<open>SERVER_DATA_DIR\<close>: a file, or a subdirectory of
  files (the subdirectory \<open>email\<close>, one file per subject).
\<close>

datatype node = File content | Subdir "(string \<times> content) list"

type_synonym directory = "(string \<times> node) list"

datatype email_message = EmailMessage string string string string

record server =
  client_socs :: "sock list"
  logged_users :: "(string \<times> sock) list"
  data_dir :: "(string \<times> directory) list"
  lost_dir :: "(string \<times> payload) list"
  sent :: "(sock \<times> frame) list"
  relayed :: "email_message list"
  closed :: "sock list"
  server_socket_closed :: bool

text \<open>\<open>Server.__init__\<close> on empty data directories.\<close>

definition init :: server where
  "init = \<lparr>client_socs = [], logged_users = [], data_dir = [], lost_dir = [],
     sent = [], relayed = [], closed = [], server_socket_closed = False\<rparr>"

text \<open>
  \<open>glosocket.send_msg(dest_soc, message)\<close>: one write is one message on the other
  end; it returns \<open>None\<close>. The frame is logged in \<open>sent\<close>.
\<close>

definition send_msg :: "sock \<Rightarrow> frame \<Rightarrow> server \<Rightarrow> server" where
  "send_msg dest_soc message s = s\<lparr>sent := sent s @ [(dest_soc, message)]\<rparr>"

subsection \<open>The data directory\<close>

text \<open>
  Modelled from the spec: the constant \<open>gloutils.PASSWORD_FILENAME\<close> is not among
  the source files. The spec says that each account directory contains a password-hash
  file; its name is taken to be \<open>pass\<close>.
\<close>

definition PASSWORD_FILENAME :: string where
  "PASSWORD_FILENAME = ''pass''"

text \<open>The longest file name, in bytes.\<close>

definition NAME_MAX :: nat where
  "NAME_MAX = 255"

text \<open>A name without slash and without NUL is one component of a path.\<close>

definition in_model :: "string \<Rightarrow> bool" where
  "in_model name = (CHR ''/'' \<notin> set name \<and> CHR 0x00 \<notin> set name)"

text \<open>
  Where the path \<open>SERVER_DATA_DIR/nom/email\<close> leads. With the empty name or the
  name \<open>.\<close> it is \<open>SERVER_DATA_DIR/email\<close>, the directory of the name
  \<open>email\<close>; with another name it is the entry \<open>email\<close> of the directory of
  that name.
\<close>

datatype place = Account string | Entry string string | Outside

definition email_place :: "string \<Rightarrow> place" where
  "email_place nom =
     (if in_model nom \<and> nom \<noteq> ''..''
      then (if nom = [] \<or> nom = ''.'' then Account ''email'' else Entry nom ''email'')
      else Outside)"

text \<open>
  What \<open>os.stat\<close> finds at a place: nothing, a name that is too long, a file, or
  a directory with its entries. \<open>os.path.exists\<close> is true for a file and for a
  directory.
\<close>

datatype stat = Absent | Name_Too_Long | Regular content | Directory directory

definition stat_place :: "(string \<times> directory) list \<Rightarrow> place \<Rightarrow> stat" where
  "stat_place dd pl =
     (case pl of
        Account b \<Rightarrow>
          (if NAME_MAX < length b then Name_Too_Long
           else case map_of dd b of None \<Rightarrow> Absent | Some d \<Rightarrow> Directory d)
      | Entry a b \<Rightarrow>
          (if NAME_MAX < length a \<or> NAME_MAX < length b then Name_Too_Long
           else case map_of dd a of
                  None \<Rightarrow> Absent
                | Some d \<Rightarrow>
                    (case map_of d b of
                       None \<Rightarrow> Absent
                     | Some (File text) \<Rightarrow> Regular text
                     | Some (Subdir files) \<Rightarrow> Directory (map (\<lambda>(f, text). (f, File text)) files)))
      | Outside \<Rightarrow> Absent)"

text \<open>
  \<open>os.listdir\<close> returns the names in an order of the file system's choosing:
  \<open>order\<close> ranks the names, and the entries are listed by rank (entries of equal
  rank as they are stored). Every order of a directory is the listing under some
  ranking, and every ranking gives an order of the directory.
\<close>

definition listdir :: "(string \<Rightarrow> nat) \<Rightarrow> directory \<Rightarrow> directory" where
  "listdir order d = sort_key (\<lambda>entry. order (fst entry)) d"

text \<open>The entries of the directory \<open>SERVER_DATA_DIR/nom/email\<close>, or the error of \<open>os.listdir\<close>.\<close>

definition scandir :: "server \<Rightarrow> string \<Rightarrow> error + directory" where
  "scandir s nom =
     (if email_place nom = Outside then Inl Outside_Model
      else case stat_place (data_dir s) (email_place nom) of
             Absent \<Rightarrow> Inl FileNotFoundError
           | Name_Too_Long \<Rightarrow> Inl OSError
           | Regular text \<Rightarrow> Inl NotADirectoryError
           | Directory d \<Rightarrow> Inr d)"

definition listdir_email :: "(string \<Rightarrow> nat) \<Rightarrow> server \<Rightarrow> string \<Rightarrow> error + directory" where
  "listdir_email order s nom =
     (case scandir s nom of Inl e \<Rightarrow> Inl e | Inr d \<Rightarrow> Inr (listdir order d))"

subsection \<open>Connections\<close>

definition accept_client :: "server \<Rightarrow> sock \<Rightarrow> server" where
  "accept_client s client_soc = s\<lparr>client_socs := client_socs s @ [client_soc]\<rparr>"

definition cleanup :: "server \<Rightarrow> server" where
  "cleanup s = s\<lparr>closed := closed s @ client_socs s, server_socket_closed := True\<rparr>"

text \<open>
  The loop of \<open>_remove_client\<close> pops from the dictionary it iterates over: the
  iterator raises \<open>RuntimeError\<close> when it is asked for the entry after the pop.
\<close>

fun remove_client_loop ::
  "(string \<times> sock) list \<Rightarrow> sock \<Rightarrow> (string \<times> sock) list \<Rightarrow> (string \<times> sock) list \<times> bool"
where
  "remove_client_loop d client_soc [] = (d, False)"
| "remove_client_loop d client_soc ((nom, s) # rest) =
     (if client_soc = s then (AList.delete nom d, True)
      else remove_client_loop d client_soc rest)"

definition remove_client :: "server \<Rightarrow> sock \<Rightarrow> server \<times> (error + unit)" where
  "remove_client s client_soc =
     (case remove_client_loop (logged_users s) client_soc (logged_users s) of
        (d, True) \<Rightarrow> (s\<lparr>logged_users := d\<rparr>, Inl RuntimeError)
      | (d, False) \<Rightarrow>
          (if client_soc \<in> set (client_socs s)
           then (s\<lparr>client_socs := remove1 client_soc (client_socs s),
                    closed := closed s @ [client_soc]\<rparr>, Inr ())
           else (s, Inl ValueError)))"

subsection \<open>Sessions\<close>

text \<open>
  The loop \<open>for key, value in self._logged_users.items(): if value == client_soc: nom = key\<close>
  of \<open>_logout\<close>, started with \<open>nom = None\<close>.
\<close>

fun logout_loop :: "string option \<Rightarrow> (string \<times> sock) list \<Rightarrow> sock \<Rightarrow> string option" where
  "logout_loop nom [] client_soc = nom"
| "logout_loop nom ((key, val) # rest) client_soc =
     logout_loop (if val = client_soc then Some key else nom) rest client_soc"

definition logout :: "server \<Rightarrow> sock \<Rightarrow> server" where
  "logout s client_soc =
     (case logout_loop None (logged_users s) client_soc of
        None \<Rightarrow> s
      | Some nom \<Rightarrow> s\<lparr>logged_users := AList.delete nom (logged_users s)\<rparr>)"

text \<open>
  The loop of \<open>_create_account\<close> over the bound user names compares
  \<open>username.lower()\<close> with \<open>self._logged_users[user_index].lower()\<close>. The value
  stored under a user name is the socket, which has no \<open>lower\<close>: the first
  iteration raises \<open>AttributeError\<close>.
\<close>

fun taken_loop :: "string \<Rightarrow> (string \<times> sock) list \<Rightarrow> error + bool" where
  "taken_loop username [] = Inr False"
| "taken_loop username ((user_index, soc) # rest) = Inl AttributeError"

definition ascii_letters :: string where
  "ascii_letters = ''abcdefghijklmnopqrstuvwxyzABCDEFGHIJKLMNOPQRSTUVWXYZ''"

text \<open>\<open>re.search(r"[a-zA-Z]", username)\<close>\<close>

definition re_search_letter :: "string \<Rightarrow> bool" where
  "re_search_letter username = list_ex (\<lambda>c. c \<in> set ascii_letters) username"

text \<open>
  After the binding, \<open>_create_account\<close> makes the directory
  \<open>os.path.join(SERVER_DATA_DIR, username)\<close> when \<open>os.path.exists\<close> is false for
  it, and writes the digest to the password file in it. \<open>os.mkdir\<close> refuses a
  name that is too long.
\<close>

definition create_account ::
  "server \<Rightarrow> sock \<Rightarrow> payload \<Rightarrow> server \<times> (error + glo_message option)" where
  "create_account s client_soc p =
     (case p of
        AuthPayload username password \<Rightarrow>
          (case taken_loop username (logged_users s) of
             Inl e \<Rightarrow> (s, Inl e)
           | Inr True \<Rightarrow> (s, Inr (Some (GloMessage (Some ERROR) None)))
           | Inr False \<Rightarrow>
               (let user_valid = re_search_letter username;
                    password_valid = (length password > 9)
                in if \<not> (password_valid \<and> user_valid)
                   then (send_msg client_soc (Json_Message (GloMessage (Some ERROR) None)) s,
                         Inr None)
                   else
                     (let s1 = s\<lparr>logged_users :=
                                  AList.update username client_soc (logged_users s)\<rparr>
                      in if \<not> in_model username then (s1, Inl Outside_Model)
                         else if NAME_MAX < length username then (s1, Inl OSError)
                         else
                           (let s2 = (case map_of (data_dir s1) username of
                                        None \<Rightarrow> s1\<lparr>data_dir := data_dir s1 @
                                          [(username,
                                            [(PASSWORD_FILENAME,
                                              File (Digest_Text (Sha3_224 password)))])]\<rparr>
                                      | Some d \<Rightarrow> s1)
                            in (send_msg client_soc
                                  (Json_Message (GloMessage (Some OK) None)) s2,
                                Inr None)))))
      | Reason text \<Rightarrow> (s, Inl TypeError)
      | _ \<Rightarrow> (s, Inl KeyError))"

definition login ::
  "server \<Rightarrow> sock \<Rightarrow> payload \<Rightarrow> server \<times> (error + glo_message option)" where
  "login s client_soc p =
     (case p of
        AuthPayload username password \<Rightarrow>
          (case map_of (logged_users s) username of
             Some existing_socket \<Rightarrow>
               (if existing_socket = client_soc
                then (send_msg client_soc (Json_Message (GloMessage (Some OK) None)) s,
                      Inr None)
                else (send_msg client_soc (Json_Message (GloMessage (Some ERROR) None)) s,
                      Inr None))
           | None \<Rightarrow>
               (send_msg client_soc (Json_Message (GloMessage (Some ERROR) None)) s,
                Inr None))
      | Reason text \<Rightarrow> (s, Inl TypeError)
      | _ \<Rightarrow> (s, Inl KeyError))"

subsection \<open>Mailboxes\<close>

text \<open>
  The loop \<open>for nom, soc in self._logged_users.items(): if soc == client_soc: nom_client = nom\<close>
  of \<open>_get_email_list\<close> and \<open>_get_email\<close>, started with the empty string.
\<close>

fun nom_client_loop :: "string \<Rightarrow> (string \<times> sock) list \<Rightarrow> sock \<Rightarrow> string" where
  "nom_client_loop nom_client [] client_soc = nom_client"
| "nom_client_loop nom_client ((nom, soc) # rest) client_soc =
     nom_client_loop (if soc = client_soc then nom else nom_client) rest client_soc"

text \<open>
  \<open>open\<close> of an entry and \<open>json.load\<close> of it. A directory cannot be opened.
  A digest is not a JSON document (one whose 56 digits are all decimal would be read as
  a number, and the lookup of a key in it would raise \<open>TypeError\<close>).
\<close>

definition json_load :: "node \<Rightarrow> error + payload" where
  "json_load n =
     (case n of
        Subdir files \<Rightarrow> Inl IsADirectoryError
      | File (Digest_Text h) \<Rightarrow> Inl JSONDecodeError
      | File (Json_Text contenu) \<Rightarrow> Inr contenu)"

text \<open>
  The loop of \<open>_get_email_list\<close> over \<open>enumerate(liste)\<close>: \<open>json.load\<close>
  of the file, then the keys \<open>sender\<close>, \<open>subject\<close> and \<open>date\<close> of it.
\<close>

fun list_loop :: "nat \<Rightarrow> directory \<Rightarrow> error + display list" where
  "list_loop o_idx [] = Inr []"
| "list_loop o_idx ((courr, n) # rest) =
     (case json_load n of
        Inl e \<Rightarrow> Inl e
      | Inr (EmailContentPayload sender destination subject date content) \<Rightarrow>
          (case list_loop (o_idx + 1) rest of
             Inl e \<Rightarrow> Inl e
           | Inr liste_mail \<Rightarrow> Inr (SUBJECT_DISPLAY (o_idx + 1) sender subject date # liste_mail))
      | Inr (Reason text) \<Rightarrow> Inl TypeError
      | Inr _ \<Rightarrow> Inl KeyError)"

text \<open>
  \<open>_get_email_list\<close> sends the empty list when \<open>os.path.exists\<close> is false for
  the directory, and lists the directory otherwise.
\<close>

definition get_email_list ::
  "(string \<Rightarrow> nat) \<Rightarrow> server \<Rightarrow> sock \<Rightarrow> server \<times> (error + glo_message option)" where
  "get_email_list order s client_soc =
     (let nom_client = nom_client_loop [] (logged_users s) client_soc
      in if email_place nom_client = Outside then (s, Inl Outside_Model)
         else case stat_place (data_dir s) (email_place nom_client) of
                Absent \<Rightarrow>
                  (send_msg client_soc (Json_List []) s, Inr (Some (GloMessage None None)))
              | Name_Too_Long \<Rightarrow>
                  (send_msg client_soc (Json_List []) s, Inr (Some (GloMessage None None)))
              | Regular text \<Rightarrow> (s, Inl NotADirectoryError)
              | Directory d \<Rightarrow>
                  (case list_loop 0 (listdir order d) of
                     Inl e \<Rightarrow> (s, Inl e)
                   | Inr liste_mail \<Rightarrow>
                       (send_msg client_soc (Json_List liste_mail) s,
                        Inr (Some (GloMessage None None)))))"

text \<open>
  The loop of \<open>_get_email\<close>: \<open>courr\<close> is the name at position \<open>choix\<close> of
  the listing, and stays the empty string when no position is \<open>choix\<close>.
\<close>

fun choice_loop :: "string \<Rightarrow> int \<Rightarrow> int \<Rightarrow> directory \<Rightarrow> string" where
  "choice_loop courr choix o_idx [] = courr"
| "choice_loop courr choix o_idx ((cour, n) # rest) =
     choice_loop (if o_idx = choix then cour else courr) choix (o_idx + 1) rest"

text \<open>
  \<open>open(chemin_general + "/email/" + courr, 'r')\<close> and \<open>read\<close>: with the empty
  name the path is the directory itself.
\<close>

definition open_read :: "directory \<Rightarrow> string \<Rightarrow> error + content" where
  "open_read liste courr =
     (if courr = [] then Inl IsADirectoryError
      else case map_of liste courr of
             None \<Rightarrow> Inl FileNotFoundError
           | Some (Subdir files) \<Rightarrow> Inl IsADirectoryError
           | Some (File text) \<Rightarrow> Inr text)"

definition get_email ::
  "(string \<Rightarrow> nat) \<Rightarrow> server \<Rightarrow> sock \<Rightarrow> payload
     \<Rightarrow> server \<times> (error + glo_message option)" where
  "get_email order s client_soc p =
     (let nom_client = nom_client_loop [] (logged_users s) client_soc
      in case p of
           EmailChoicePayload choice \<Rightarrow>
             (let choix = choice - 1
              in case listdir_email order s nom_client of
                   Inl e \<Rightarrow> (s, Inl e)
                 | Inr liste \<Rightarrow>
                     (case open_read liste (choice_loop [] choix 0 liste) of
                        Inl e \<Rightarrow> (s, Inl e)
                      | Inr lr_mail \<Rightarrow>
                          (send_msg client_soc (File_Text lr_mail) s,
                           Inr (Some (GloMessage None None)))))
         | Reason text \<Rightarrow> (s, Inl TypeError)
         | _ \<Rightarrow> (s, Inl KeyError))"

text \<open>
  \<open>_get_stats\<close> formats the socket object itself into the path; \<open>soc_str\<close> is
  the text of a socket object and \<open>getsize\<close> the size in bytes of an entry. The
  number of the entries and the sum of their sizes do not depend on the order of the
  listing.
\<close>

definition get_stats ::
  "(sock \<Rightarrow> string) \<Rightarrow> (node \<Rightarrow> nat) \<Rightarrow> server \<Rightarrow> sock
     \<Rightarrow> server \<times> (error + glo_message option)" where
  "get_stats soc_str getsize s client_soc =
     (case scandir s (soc_str client_soc) of
        Inl e \<Rightarrow> (s, Inl e)
      | Inr lst \<Rightarrow>
          (let nmbr_ml = length lst;
               tlle = sum_list (map (\<lambda>(f, n). getsize n) lst)
           in (send_msg client_soc (Json_Stats nmbr_ml tlle) s,
               Inr (Some (GloMessage None None)))))"

subsection \<open>Routing\<close>

text \<open>
  What becomes of a message with given \<open>From\<close>, \<open>To\<close>, \<open>Subject\<close> and
  content is the environment's choice. Building the \<open>EmailMessage\<close> may raise
  (\<open>ValueError\<close> for a line feed in a header). Otherwise the message is given to
  \<open>smtplib.SMTP(host=gloutils.SMTP_SERVER, timeout=10)\<close> and \<open>send_message\<close>:
  it is accepted, \<open>SMTPException\<close> is raised with a text, \<open>socket.timeout\<close>
  is raised, or another \<open>OSError\<close> (a refused connection) is raised.
\<close>

datatype smtp_outcome =
  Header_Error error | Smtp_Sent | Smtp_Exception string | Smtp_Timeout | Smtp_OSError

text \<open>
  \<open>os.makedirs(dest_vl + "/email")\<close>, called when \<open>os.path.exists\<close> is false
  for the directory: it makes the directory and the one above it when they are missing.
\<close>

definition makedirs_email :: "(string \<times> directory) list \<Rightarrow> place \<Rightarrow> (string \<times> directory) list" where
  "makedirs_email dd pl =
     (case pl of
        Account b \<Rightarrow> dd @ [(b, [])]
      | Entry a b \<Rightarrow>
          (case map_of dd a of
             None \<Rightarrow> dd @ [(a, [(b, Subdir [])])]
           | Some d \<Rightarrow> AList.update a (d @ [(b, Subdir [])]) dd)
      | Outside \<Rightarrow> dd)"

text \<open>
  \<open>open(os.path.join(dest_vl + "/email", sujet), 'w')\<close> and the write of the text,
  in a directory that exists. With the subject empty, \<open>.\<close> or \<open>..\<close> the path
  is a directory; a subject that is too long is refused; a subdirectory of that name
  cannot be opened; otherwise the file is created, or replaced when it is there.
\<close>

definition open_write ::
  "(string \<times> directory) list \<Rightarrow> place \<Rightarrow> string \<Rightarrow> content \<Rightarrow> error + (string \<times> directory) list"
where
  "open_write dd pl sujet text =
     (if sujet = [] \<or> sujet = ''.'' \<or> sujet = ''..'' then Inl IsADirectoryError
      else if NAME_MAX < length sujet then Inl OSError
      else case pl of
             Account b \<Rightarrow>
               (case map_of dd b of
                  None \<Rightarrow> Inl FileNotFoundError
                | Some d \<Rightarrow>
                    (case map_of d sujet of
                       Some (Subdir files) \<Rightarrow> Inl IsADirectoryError
                     | _ \<Rightarrow> Inr (AList.update b (AList.update sujet (File text) d) dd)))
           | Entry a b \<Rightarrow>
               (case map_of dd a of
                  None \<Rightarrow> Inl FileNotFoundError
                | Some d \<Rightarrow>
                    (case map_of d b of
                       None \<Rightarrow> Inl FileNotFoundError
                     | Some (File other) \<Rightarrow> Inl NotADirectoryError
                     | Some (Subdir files) \<Rightarrow>
                         Inr (AList.update a
                                (AList.update b (Subdir (AList.update sujet text files)) d) dd)))
           | Outside \<Rightarrow> Inl Outside_Model)"

text \<open>
  The branch of \<open>_send_email\<close> that stores the email under
  \<open>SERVER_DATA_DIR/dest/email\<close>. When that path is a file, \<open>os.path.exists\<close>
  is true and \<open>open\<close> fails on it.
\<close>

definition store_email ::
  "server \<Rightarrow> string \<Rightarrow> string \<Rightarrow> payload \<Rightarrow> server \<times> (error + glo_message option)" where
  "store_email s dest sujet p =
     (let pl = email_place dest
      in if pl \<noteq> Outside \<and> in_model sujet
         then (case stat_place (data_dir s) pl of
                 Name_Too_Long \<Rightarrow> (s, Inl OSError)
               | Regular other \<Rightarrow>
                   (s, Inl (if sujet = [] then IsADirectoryError else NotADirectoryError))
               | st \<Rightarrow>
                   (let s1 = (if st = Absent
                              then s\<lparr>data_dir := makedirs_email (data_dir s) pl\<rparr> else s)
                    in case open_write (data_dir s1) pl sujet (Json_Text p) of
                         Inl e \<Rightarrow> (s1, Inl e)
                       | Inr dd \<Rightarrow>
                           (s1\<lparr>data_dir := dd\<rparr>, Inr (Some (GloMessage (Some OK) None)))))
         else (s, Inl Outside_Model))"

definition send_email ::
  "(email_message \<Rightarrow> smtp_outcome) \<Rightarrow> server \<Rightarrow> payload \<Rightarrow> server \<times> (error + glo_message option)"
where
  "send_email smtp s p =
     (case p of
        EmailContentPayload user_nm dest sujet date body \<Rightarrow>
          (case map_of (logged_users s) user_nm of
             Some client_soc \<Rightarrow> store_email s dest sujet p
           | None \<Rightarrow>
               (let message = EmailMessage user_nm dest sujet body;
                    s1 = s\<lparr>relayed := relayed s @ [message]\<rparr>
                in case smtp message of
                     Header_Error e \<Rightarrow> (s, Inl e)
                   | Smtp_Sent \<Rightarrow> (s1, Inr (Some (GloMessage (Some OK) None)))
                   | Smtp_Exception e \<Rightarrow>
                       (s1, Inr (Some (GloMessage (Some ERROR) (Some (Reason e)))))
                   | Smtp_Timeout \<Rightarrow>
                       (s1, Inr (Some (GloMessage (Some ERROR)
                                        (Some (Reason ''Echec de la connexion.'')))))
                   | Smtp_OSError \<Rightarrow> (s1, Inl OSError)))
      | Reason text \<Rightarrow> (s, Inl TypeError)
      | _ \<Rightarrow> (s, Inl KeyError))"

subsection \<open>The loop\<close>

text \<open>
  What \<open>glosocket.recv_msg\<close> and \<open>json.loads\<close> give for a ready client
  socket: \<open>GLOSocketError\<close> (the peer closed, the frame is broken), a text that is
  not JSON, or a dictionary with its \<open>header\<close> and \<open>payload\<close> keys when it
  has them. A payload is a dictionary, or a string (\<open>Reason\<close>), in which the
  lookup of a key raises \<open>TypeError\<close>.
\<close>

datatype received = Raises_GLOSocketError | Not_JSON | Message "headers option" "payload option"

text \<open>
  One socket reported ready by \<open>select\<close>: the listening socket with the socket
  \<open>accept\<close> returns, or a client socket with what is read from it; or the
  keyboard interrupt.
\<close>

datatype event = Accept sock | Ready sock received | Interrupt

text \<open>\<open>json.dumps\<close> of what a handler returns: \<open>None\<close> is \<open>null\<close>.\<close>

definition dumps :: "glo_message option \<Rightarrow> frame" where
  "dumps r = (case r of None \<Rightarrow> Json_Null | Some m \<Rightarrow> Json_Message m)"

definition reply ::
  "sock \<Rightarrow> server \<times> (error + glo_message option) \<Rightarrow> server \<times> (error + unit)" where
  "reply soc_c res =
     (case res of
        (s, Inl e) \<Rightarrow> (s, Inl e)
      | (s, Inr r) \<Rightarrow> (send_msg soc_c (dumps r) s, Inr ()))"

text \<open>
  \<open>dico["payload"]\<close> is evaluated before the handler is called and raises
  \<open>KeyError\<close> when the key is missing.
\<close>

definition with_payload ::
  "payload option \<Rightarrow> server \<Rightarrow> (payload \<Rightarrow> server \<times> (error + glo_message option))
     \<Rightarrow> server \<times> (error + glo_message option)" where
  "with_payload po s handler = (case po of None \<Rightarrow> (s, Inl KeyError) | Some p \<Rightarrow> handler p)"

text \<open>The body of the \<open>for\<close> loop of \<open>run\<close> for one ready socket.\<close>

definition serve ::
  "(email_message \<Rightarrow> smtp_outcome) \<Rightarrow> (string \<Rightarrow> nat) \<Rightarrow> server \<Rightarrow> event
     \<Rightarrow> server \<times> (error + unit)" where
  "serve smtp order s ev =
     (case ev of
        Interrupt \<Rightarrow> (s, Inl KeyboardInterrupt)
      | Accept client_soc \<Rightarrow> (accept_client s client_soc, Inr ())
      | Ready soc_c Raises_GLOSocketError \<Rightarrow> (s, Inl GLOSocketError)
      | Ready soc_c Not_JSON \<Rightarrow> (s, Inl JSONDecodeError)
      | Ready soc_c (Message None po) \<Rightarrow> (s, Inl KeyError)
      | Ready soc_c (Message (Some h) po) \<Rightarrow>
          (if h = AUTH_REGISTER
             then reply soc_c (with_payload po s (create_account s soc_c))
           else if h = AUTH_LOGIN
             then reply soc_c (with_payload po s (login s soc_c))
           else if h = AUTH_LOGOUT
             then reply soc_c (logout s soc_c, Inr None)
           else if h = BYE
             then (logout s soc_c, Inr ())
           else if h = INBOX_READING_REQUEST
             then reply soc_c (get_email_list order s soc_c)
           else if h = INBOX_READING_CHOICE
             then reply soc_c (with_payload po s (get_email order s soc_c))
           else if h = EMAIL_SENDING
             then reply soc_c (with_payload po s (send_email smtp s))
           else (s, Inr ())))"

text \<open>
  \<open>run\<close> over the events the environment delivers, with its SMTP relay and the
  order of its directory listings. An exception leaves both loops
  and \<open>cleanup\<close> runs; when the events are used up the server waits in
  \<open>select\<close>.
\<close>

datatype status = Waiting | Stopped error

fun run ::
  "(email_message \<Rightarrow> smtp_outcome) \<Rightarrow> (string \<Rightarrow> nat) \<Rightarrow> server \<Rightarrow> event list
     \<Rightarrow> server \<times> status" where
  "run smtp order s [] = (s, Waiting)"
| "run smtp order s (ev # evs) =
     (case serve smtp order s ev of
        (s', Inl e) \<Rightarrow> (cleanup s', Stopped e)
      | (s', Inr _) \<Rightarrow> run smtp order s' evs)"

subsection \<open>Reachable states\<close>

text \<open>
  The states of the server after any sequence of accepted connections, registrations,
  logins and logouts, each on any socket and with any payload. A handler that raises
  leaves the state as it was when the exception was raised.
\<close>

inductive reachable :: "server \<Rightarrow> bool" where
  start: "reachable init"
| accept: "reachable s \<Longrightarrow> reachable (accept_client s client_soc)"
| register: "reachable s \<Longrightarrow> reachable (fst (create_account s client_soc p))"
| log_in: "reachable s \<Longrightarrow> reachable (fst (login s client_soc p))"
| log_out: "reachable s \<Longrightarrow> reachable (logout s client_soc)"

subsection \<open>Scenarios\<close>

text \<open>Two connections accepted, nobody registered.\<close>

definition two_clients :: server where
  "two_clients = accept_client (accept_client init 1) 2"

text \<open>Then \<open>alice\<close> registers on connection 1 with the password \<open>supersecret1\<close>.\<close>

definition alice_registered :: server where
  "alice_registered = fst (create_account two_clients 1 (AuthPayload ''alice'' ''supersecret1''))"

text \<open>
  \<open>bob\<close> registers on connection 2 and logs out, then \<open>alice\<close> registers on
  connection 1: both accounts exist and \<open>alice\<close> is bound.
\<close>

definition bob_and_alice :: server where
  "bob_and_alice =
     fst (create_account
            (logout (fst (create_account two_clients 2 (AuthPayload ''bob'' ''password1234''))) 2)
            1 (AuthPayload ''alice'' ''supersecret1''))"

text \<open>
  \<open>alice\<close>, registered and bound, is sent a first email and, a day later, a second
  one.
\<close>

definition first_mail :: payload where
  "first_mail = EmailContentPayload ''alice'' ''alice'' ''first'' ''2023-11-01 10:00:00'' ''one''"

definition second_mail :: payload where
  "second_mail = EmailContentPayload ''alice'' ''alice'' ''second'' ''2023-11-02 10:00:00'' ''two''"

definition alice_one_mail :: server where
  "alice_one_mail = fst (send_email (\<lambda>m. Smtp_Sent) alice_registered first_mail)"

definition alice_two_mails :: server where
  "alice_two_mails = fst (send_email (\<lambda>m. Smtp_Sent) alice_one_mail second_mail)"

text \<open>
  A user named \<open>email\<close> registers on connection 1 and logs out; connection 2 is
  not bound.
\<close>

definition email_account :: server where
  "email_account =
     logout (fst (create_account two_clients 1 (AuthPayload ''email'' ''supersecret1''))) 1"

section \<open>Properties\<close>

subsection \<open>Facts about the handlers\<close>

lemma login_password_unused:
  "login s client_soc (AuthPayload username password) =
   login s client_soc (AuthPayload username password')"
  by (simp add: login_def)

lemma login_logged_users: "logged_users (fst (login s client_soc p)) = logged_users s"
  by (simp add: login_def send_msg_def split: payload.splits option.splits)

lemma taken_loop_cases:
  "taken_loop username d = (if d = [] then Inr False else Inl AttributeError)"
  by (cases d) auto

lemma create_account_bound:
  "logged_users s \<noteq> [] \<Longrightarrow>
   create_account s client_soc (AuthPayload username password) = (s, Inl AttributeError)"
  by (simp add: create_account_def taken_loop_cases)

lemma create_account_logged_users:
  "logged_users (fst (create_account s client_soc p)) = logged_users s
   \<or> (logged_users s = []
      \<and> (\<exists>username. logged_users (fst (create_account s client_soc p)) = [(username, client_soc)]))"
  by (cases "logged_users s = []")
     (auto simp: create_account_def taken_loop_cases send_msg_def Let_def
           split: payload.splits option.splits)

lemma logout_logged_users: "length (logged_users (logout s client_soc)) \<le> length (logged_users s)"
  by (simp add: logout_def AList.delete_eq split: option.splits)

lemma at_most_one_binding: "reachable s \<Longrightarrow> length (logged_users s) \<le> 1"
proof (induction rule: reachable.induct)
  case start
  show ?case by (simp add: init_def)
next
  case (accept s client_soc)
  then show ?case by (simp add: accept_client_def)
next
  case (register s client_soc p)
  from create_account_logged_users [of s client_soc p] register.IH show ?case
    by auto
next
  case (log_in s client_soc p)
  then show ?case by (simp add: login_logged_users)
next
  case (log_out s client_soc)
  from logout_logged_users [of s client_soc] log_out.IH show ?case
    by linarith
qed

lemma short_list_distinct: "length xs \<le> 1 \<Longrightarrow> distinct xs"
  by (cases xs) auto

lemma store_email_lost_dir: "lost_dir (fst (store_email s dest sujet p)) = lost_dir s"
  by (simp add: store_email_def Let_def split: stat.splits sum.splits)

lemma send_email_lost_dir:
  "snd (send_email smtp s p) \<noteq> Inl Outside_Model \<Longrightarrow>
   lost_dir (fst (send_email smtp s p)) = lost_dir s"
  by (simp add: send_email_def store_email_lost_dir Let_def
        split: payload.splits option.splits smtp_outcome.splits)

lemma serve_stats_request:
  "serve smtp order s (Ready soc_c (Message (Some STATS_REQUEST) po)) = (s, Inr ())"
  by (simp add: serve_def)

lemma serve_recv_error:
  "serve smtp order s (Ready soc_c Raises_GLOSocketError) = (s, Inl GLOSocketError)"
  by (simp add: serve_def)

lemma run_recv_error:
  "run smtp order s (Ready soc_c Raises_GLOSocketError # evs) = (cleanup s, Stopped GLOSocketError)"
  by (simp add: serve_recv_error)

subsection \<open>Facts about the listings\<close>

text \<open>A listing holds the entries of the directory, each once, whatever the order.\<close>

lemma listdir_mset: "mset (listdir order d) = mset d"
  by (simp add: listdir_def)

lemma listdir_length: "length (listdir order d) = length d"
  by (simp add: listdir_def)

lemma listdir_two:
  "listdir order [(a, x), (b, y)] =
     (if order a \<le> order b then [(a, x), (b, y)] else [(b, y), (a, x)])"
  by (simp add: listdir_def)

lemma listdir_one: "listdir order [(a, x)] = [(a, x)]"
  by (simp add: listdir_def)

lemma list_loop_length: "list_loop n liste = Inr liste_mail \<Longrightarrow> length liste_mail = length liste"
  by (induction n liste arbitrary: liste_mail rule: list_loop.induct)
     (auto split: payload.splits sum.splits)

lemma list_loop_nth:
  "list_loop n liste = Inr liste_mail \<Longrightarrow> i < length liste \<Longrightarrow>
   \<exists>sender destination subject date content.
     json_load (snd (liste ! i)) = Inr (EmailContentPayload sender destination subject date content)
     \<and> liste_mail ! i = SUBJECT_DISPLAY (n + i + 1) sender subject date"
proof (induction n liste arbitrary: liste_mail i rule: list_loop.induct)
  case (1 o_idx)
  then show ?case by simp
next
  case (2 o_idx courr n rest)
  then show ?case
    by (cases i) (auto split: payload.splits sum.splits)
qed

lemma get_email_list_no_directory:
  "email_place (nom_client_loop [] (logged_users s) client_soc) \<noteq> Outside \<Longrightarrow>
   stat_place (data_dir s) (email_place (nom_client_loop [] (logged_users s) client_soc)) = Absent \<Longrightarrow>
   get_email_list order s client_soc =
     (send_msg client_soc (Json_List []) s, Inr (Some (GloMessage None None)))"
  by (simp add: get_email_list_def)

lemma get_email_list_directory:
  "email_place (nom_client_loop [] (logged_users s) client_soc) \<noteq> Outside \<Longrightarrow>
   stat_place (data_dir s) (email_place (nom_client_loop [] (logged_users s) client_soc)) = Directory d \<Longrightarrow>
   list_loop 0 (listdir order d) = Inr liste_mail \<Longrightarrow>
   get_email_list order s client_soc =
     (send_msg client_soc (Json_List liste_mail) s, Inr (Some (GloMessage None None)))"
  by (simp add: get_email_list_def)

lemma choice_loop_past:
  "choix < o_idx \<Longrightarrow> choice_loop courr choix o_idx liste = courr"
  by (induction courr choix o_idx liste rule: choice_loop.induct) auto

lemma choice_loop_nth:
  "o_idx \<le> choix \<Longrightarrow> choix < o_idx + int (length liste) \<Longrightarrow>
   choice_loop courr choix o_idx liste = fst (liste ! nat (choix - o_idx))"
proof (induction courr choix o_idx liste rule: choice_loop.induct)
  case (1 courr choix o_idx)
  then show ?case by simp
next
  case (2 courr choix o_idx cour n rest)
  show ?case
  proof (cases "o_idx = choix")
    case True
    then show ?thesis by (simp add: choice_loop_past)
  next
    case False
    with "2.prems" have "o_idx + 1 \<le> choix" and "choix < o_idx + 1 + int (length rest)"
      by auto
    moreover have "nat (choix - o_idx) = Suc (nat (choix - (o_idx + 1)))"
      using False "2.prems" by simp
    ultimately show ?thesis
      using "2.IH" False by simp
  qed
qed

lemma choice_loop_out_of_range:
  "choix < o_idx \<or> o_idx + int (length liste) \<le> choix \<Longrightarrow>
   choice_loop courr choix o_idx liste = courr"
  by (induction courr choix o_idx liste rule: choice_loop.induct) auto

lemma get_email_out_of_range:
  "listdir_email order s (nom_client_loop [] (logged_users s) client_soc) = Inr liste \<Longrightarrow>
   choice < 1 \<or> int (length liste) < choice \<Longrightarrow>
   get_email order s client_soc (EmailChoicePayload choice) = (s, Inl IsADirectoryError)"
  by (simp add: get_email_def open_read_def choice_loop_out_of_range)

subsection \<open>The scenarios, evaluated\<close>

lemma alice_registered_eq:
  "alice_registered =
     \<lparr>client_socs = [1, 2], logged_users = [(''alice'', 1)],
      data_dir = [(''alice'', [(PASSWORD_FILENAME, File (Digest_Text (Sha3_224 ''supersecret1'')))])],
      lost_dir = [], sent = [(1, Json_Message (GloMessage (Some OK) None))],
      relayed = [], closed = [], server_socket_closed = False\<rparr>"
  by code_simp

lemma bob_and_alice_eq:
  "bob_and_alice =
     \<lparr>client_socs = [1, 2], logged_users = [(''alice'', 1)],
      data_dir = [(''bob'', [(PASSWORD_FILENAME, File (Digest_Text (Sha3_224 ''password1234'')))]),
                  (''alice'', [(PASSWORD_FILENAME, File (Digest_Text (Sha3_224 ''supersecret1'')))])],
      lost_dir = [],
      sent = [(2, Json_Message (GloMessage (Some OK) None)),
              (1, Json_Message (GloMessage (Some OK) None))],
      relayed = [], closed = [], server_socket_closed = False\<rparr>"
  by code_simp

lemma alice_one_mail_eq:
  "alice_one_mail =
     alice_registered\<lparr>data_dir :=
       [(''alice'', [(PASSWORD_FILENAME, File (Digest_Text (Sha3_224 ''supersecret1''))),
                     (''email'', Subdir [(''first'', Json_Text first_mail)])])]\<rparr>"
  by code_simp

lemma alice_two_mails_eq:
  "alice_two_mails =
     alice_registered\<lparr>data_dir :=
       [(''alice'', [(PASSWORD_FILENAME, File (Digest_Text (Sha3_224 ''supersecret1''))),
                     (''email'', Subdir [(''first'', Json_Text first_mail),
                                         (''second'', Json_Text second_mail)])])]\<rparr>"
  by code_simp

lemma email_place_alice: "email_place ''alice'' = Entry ''alice'' ''email''"
  by code_simp

text \<open>
  An unbound connection reads \<open>SERVER_DATA_DIR//email\<close>, the directory of the
  user \<open>email\<close>: the list request fails on the password file, and the choice 1
  sends its digest.
\<close>

lemma unbound_reads_account_email:
  "get_email_list order email_account 2 = (email_account, Inl JSONDecodeError)
   \<and> get_email order email_account 2 (EmailChoicePayload 1)
     = (send_msg 2 (File_Text (Digest_Text (Sha3_224 ''supersecret1''))) email_account,
        Inr (Some (GloMessage None None)))
   \<and> get_email_list order two_clients 2
     = (send_msg 2 (Json_List []) two_clients, Inr (Some (GloMessage None None)))"
proof -
  have place: "email_place [] = Account ''email''"
    by code_simp
  have acc: "email_account =
     \<lparr>client_socs = [1, 2], logged_users = [],
      data_dir = [(''email'', [(PASSWORD_FILENAME, File (Digest_Text (Sha3_224 ''supersecret1'')))])],
      lost_dir = [], sent = [(1, Json_Message (GloMessage (Some OK) None))],
      relayed = [], closed = [], server_socket_closed = False\<rparr>"
    by code_simp
  have two: "two_clients =
     \<lparr>client_socs = [1, 2], logged_users = [], data_dir = [], lost_dir = [],
      sent = [], relayed = [], closed = [], server_socket_closed = False\<rparr>"
    by code_simp
  show ?thesis
    by (simp add: get_email_list_def get_email_def listdir_email_def scandir_def place
          stat_place_def NAME_MAX_def acc two listdir_one json_load_def open_read_def
          PASSWORD_FILENAME_def)
qed

text \<open>
  The subjects that \<open>open\<close> refuses: \<open>..\<close> is a directory, and a name of
  256 bytes is too long. In both cases \<open>os.makedirs\<close> has made the directories
  before.
\<close>

lemma refused_subjects:
  "send_email smtp alice_registered (EmailContentPayload ''alice'' ''bob'' ''..'' date body)
     = (alice_registered\<lparr>data_dir := data_dir alice_registered @ [(''bob'', [(''email'', Subdir [])])]\<rparr>,
        Inl IsADirectoryError)
   \<and> send_email smtp alice_registered
        (EmailContentPayload ''alice'' ''bob'' (replicate 256 CHR ''x'') date body)
     = (alice_registered\<lparr>data_dir := data_dir alice_registered @ [(''bob'', [(''email'', Subdir [])])]\<rparr>,
        Inl OSError)"
proof -
  have place: "email_place ''bob'' = Entry ''bob'' ''email''"
    by code_simp
  have plain: "in_model ''..''" "in_model (replicate 256 CHR ''x'')"
    by (simp_all add: in_model_def)
  have long: "replicate 256 CHR ''x'' \<noteq> []" "replicate 256 CHR ''x'' \<noteq> ''.''"
    "replicate 256 CHR ''x'' \<noteq> ''..''"
  proof -
    have "length (replicate 256 CHR ''x'') \<noteq> length xs" if "length xs \<le> 2" for xs :: string
      using that by simp
    from this [of "[]"] this [of "''.''"] this [of "''..''"]
    show "replicate 256 CHR ''x'' \<noteq> []" "replicate 256 CHR ''x'' \<noteq> ''.''"
      "replicate 256 CHR ''x'' \<noteq> ''..''"
      by fastforce+
  qed
  show ?thesis
    by (simp add: send_email_def store_email_def place plain long stat_place_def NAME_MAX_def
          alice_registered_eq PASSWORD_FILENAME_def makedirs_email_def open_write_def Let_def)
qed

lemma remove_client_bound:
  "remove_client alice_registered 1 = (alice_registered\<lparr>logged_users := []\<rparr>, Inl RuntimeError)"
  by code_simp

subsection \<open>The claims\<close>

text \<open>
  C10. In every state reachable by accepting connections, registering, logging in and
  logging out, the session binding is one-to-one: no user name is bound twice (each user
  name to at most one connection) and no connection is bound twice (each connection to at
  most one user name).
\<close>

theorem session_binding_one_to_one:
  "reachable s \<Longrightarrow>
   distinct (map fst (logged_users s)) \<and> distinct (map snd (logged_users s))"
proof -
  assume "reachable s"
  then have "length (logged_users s) \<le> 1"
    by (rule at_most_one_binding)
  then have "length (map fst (logged_users s)) \<le> 1" and "length (map snd (logged_users s)) \<le> 1"
    by simp_all
  then show ?thesis
    by (simp add: short_list_distinct)
qed

theorem session_binding_one_to_one_witness:
  "reachable alice_registered
   \<and> logged_users alice_registered = [(''alice'', 1)]
   \<and> distinct (map fst (logged_users alice_registered))
   \<and> distinct (map snd (logged_users alice_registered))"
proof -
  have r: "reachable alice_registered"
    unfolding alice_registered_def two_clients_def
    by (intro reachable.intros)
  have "logged_users alice_registered = [(''alice'', 1)]"
    by (simp add: alice_registered_eq)
  with r session_binding_one_to_one [OF r] show ?thesis
    by simp
qed

text \<open>
  C1. Login does not look at the password. With \<open>alice\<close> registered on connection 1
  under the password \<open>supersecret1\<close> (whose digest is in her password file), a login
  on connection 1 with a wrong password is answered OK, and a login on connection 2
  with the right password is answered ERROR.
\<close>

theorem login_compares_sockets_not_passwords:
  "map_of (data_dir alice_registered) ''alice''
     = Some [(PASSWORD_FILENAME, File (Digest_Text (Sha3_224 ''supersecret1'')))]
   \<and> login alice_registered 1 (AuthPayload ''alice'' ''wrongpassword'')
     = (send_msg 1 (Json_Message (GloMessage (Some OK) None)) alice_registered, Inr None)
   \<and> login alice_registered 2 (AuthPayload ''alice'' ''supersecret1'')
     = (send_msg 2 (Json_Message (GloMessage (Some ERROR) None)) alice_registered, Inr None)"
  by (simp add: alice_registered_eq login_def)

text \<open>
  C2. The route is chosen by the sender, not by the destination. With the accounts
  \<open>bob\<close> and \<open>alice\<close> on the server and \<open>alice\<close> bound, an email from
  \<open>alice@glo2000.ca\<close> (the sender the client writes) to the local account \<open>bob\<close>
  is handed to the SMTP relay and the data directory is left as it was; an email from
  the bound name \<open>alice\<close> to \<open>carol@example.com\<close> is written under a new
  directory of that name and nothing is relayed.
\<close>

theorem send_email_routes_by_sender:
  "send_email (\<lambda>m. Smtp_Sent) bob_and_alice
      (EmailContentPayload ''alice@glo2000.ca'' ''bob'' ''hi'' ''2023-11-01 10:00:00'' ''body'')
     = (bob_and_alice\<lparr>relayed := [EmailMessage ''alice@glo2000.ca'' ''bob'' ''hi'' ''body'']\<rparr>,
        Inr (Some (GloMessage (Some OK) None)))
   \<and> send_email (\<lambda>m. Smtp_Sent) bob_and_alice
      (EmailContentPayload ''alice'' ''carol@example.com'' ''hi'' ''2023-11-01 10:00:00'' ''body'')
     = (bob_and_alice\<lparr>data_dir := data_dir bob_and_alice @
          [(''carol@example.com'',
            [(''email'',
              Subdir [(''hi'', Json_Text (EmailContentPayload ''alice'' ''carol@example.com''
                                           ''hi'' ''2023-11-01 10:00:00'' ''body''))])])]\<rparr>,
        Inr (Some (GloMessage (Some OK) None)))"
  by code_simp

text \<open>
  C3. Nothing is ever written to the lost-mail directory. An email to \<open>nowhere\<close>,
  which is neither an account nor an address, from a sender that is not bound goes to
  the SMTP relay; when the relay refuses it the answer is ERROR and the lost-mail
  directory is still empty. From the bound name \<open>alice\<close> the same email is stored
  under a new directory \<open>nowhere\<close> of the data directory and the answer is OK.
\<close>

theorem unroutable_mail_not_archived:
  "send_email (\<lambda>m. Smtp_Exception ''recipient refused'') alice_registered
      (EmailContentPayload ''alice@glo2000.ca'' ''nowhere'' ''hi'' ''2023-11-01 10:00:00'' ''body'')
     = (alice_registered\<lparr>relayed := [EmailMessage ''alice@glo2000.ca'' ''nowhere'' ''hi'' ''body'']\<rparr>,
        Inr (Some (GloMessage (Some ERROR) (Some (Reason ''recipient refused'')))))
   \<and> lost_dir alice_registered = []
   \<and> send_email (\<lambda>m. Smtp_Exception ''recipient refused'') alice_registered
      (EmailContentPayload ''alice'' ''nowhere'' ''hi'' ''2023-11-01 10:00:00'' ''body'')
     = (alice_registered\<lparr>data_dir := data_dir alice_registered @
          [(''nowhere'',
            [(''email'',
              Subdir [(''hi'', Json_Text (EmailContentPayload ''alice'' ''nowhere''
                                           ''hi'' ''2023-11-01 10:00:00'' ''body''))])])]\<rparr>,
        Inr (Some (GloMessage (Some OK) None)))"
  by code_simp

text \<open>
  C4. A read error on one connection ends the loop. With \<open>alice\<close> bound to
  connection 1 and connection 2 open, \<open>GLOSocketError\<close> on connection 1 stops the
  server: the request that connection 2 has ready is not served, both client sockets and
  the listening socket are closed, and connection 1 is neither removed from the client
  list nor unbound.
\<close>

theorem recv_error_stops_the_loop:
  "run smtp order alice_registered
      [Ready 1 Raises_GLOSocketError, Ready 2 (Message (Some AUTH_LOGOUT) None)]
     = (alice_registered\<lparr>closed := [1, 2], server_socket_closed := True\<rparr>,
        Stopped GLOSocketError)
   \<and> client_socs alice_registered = [1, 2]
   \<and> logged_users alice_registered = [(''alice'', 1)]"
  by (simp add: serve_def cleanup_def alice_registered_eq)

text \<open>
  C5. An index out of range is not answered with an error message. With one email in
  the mailbox of \<open>alice\<close>, the choice 2 makes \<open>_get_email\<close> open the mail directory
  itself: \<open>IsADirectoryError\<close> is raised, no frame is written and the loop of
  \<open>run\<close> stops. Without a mail directory the listing raises
  \<open>FileNotFoundError\<close>. The choice 1 sends the stored email.
\<close>

theorem get_email_out_of_range_raises:
  "get_email order alice_one_mail 1 (EmailChoicePayload 2) = (alice_one_mail, Inl IsADirectoryError)
   \<and> run smtp order alice_one_mail
        [Ready 1 (Message (Some INBOX_READING_CHOICE) (Some (EmailChoicePayload 2)))]
     = (cleanup alice_one_mail, Stopped IsADirectoryError)
   \<and> get_email order alice_registered 1 (EmailChoicePayload 1) = (alice_registered, Inl FileNotFoundError)
   \<and> get_email order alice_one_mail 1 (EmailChoicePayload 1)
     = (send_msg 1 (File_Text (Json_Text first_mail)) alice_one_mail,
        Inr (Some (GloMessage None None)))"
proof -
  have place: "email_place ''alice'' = Entry ''alice'' ''email''"
    by (rule email_place_alice)
  have one: "listdir_email order alice_one_mail ''alice'' = Inr [(''first'', File (Json_Text first_mail))]"
    by (simp add: listdir_email_def scandir_def place stat_place_def NAME_MAX_def
          alice_one_mail_eq alice_registered_eq PASSWORD_FILENAME_def listdir_one)
  have none: "listdir_email order alice_registered ''alice'' = Inl FileNotFoundError"
    by (simp add: listdir_email_def scandir_def place stat_place_def NAME_MAX_def
          alice_registered_eq PASSWORD_FILENAME_def)
  have nom1: "nom_client_loop [] (logged_users alice_one_mail) (Suc 0) = ''alice''"
    by (simp add: alice_one_mail_eq alice_registered_eq)
  have nom0: "nom_client_loop [] (logged_users alice_registered) (Suc 0) = ''alice''"
    by (simp add: alice_registered_eq)
  have a: "get_email order alice_one_mail 1 (EmailChoicePayload 2) = (alice_one_mail, Inl IsADirectoryError)"
    by (simp add: get_email_def nom1 one open_read_def)
  have b: "get_email order alice_registered 1 (EmailChoicePayload 1) = (alice_registered, Inl FileNotFoundError)"
    by (simp add: get_email_def nom0 none)
  have c: "get_email order alice_one_mail 1 (EmailChoicePayload 1)
     = (send_msg 1 (File_Text (Json_Text first_mail)) alice_one_mail,
        Inr (Some (GloMessage None None)))"
    by (simp add: get_email_def nom1 one open_read_def)
  have d: "run smtp order alice_one_mail
        [Ready 1 (Message (Some INBOX_READING_CHOICE) (Some (EmailChoicePayload 2)))]
     = (cleanup alice_one_mail, Stopped IsADirectoryError)"
    using a by (simp add: serve_def with_payload_def reply_def)
  from a b c d show ?thesis
    by simp
qed

text \<open>
  C6. While a user is bound, every registration raises \<open>AttributeError\<close>, whatever
  the user name: with \<open>alice\<close> bound, neither the free name \<open>bob\<close> with a valid
  password is registered nor the taken name \<open>ALICE\<close> answered with ERROR. Once
  \<open>alice\<close> has logged out, the name \<open>alice\<close> is registered a second time and
  answered OK.
\<close>

theorem registration_while_bound_raises:
  "create_account alice_registered 2 (AuthPayload ''bob'' ''password1234'')
     = (alice_registered, Inl AttributeError)
   \<and> create_account alice_registered 2 (AuthPayload ''ALICE'' ''other12345'')
     = (alice_registered, Inl AttributeError)
   \<and> sent (fst (create_account (logout alice_registered 1) 2 (AuthPayload ''alice'' ''other12345'')))
     = [(1, Json_Message (GloMessage (Some OK) None)), (2, Json_Message (GloMessage (Some OK) None))]
   \<and> logged_users (fst (create_account (logout alice_registered 1) 2 (AuthPayload ''alice'' ''other12345'')))
     = [(''alice'', 2)]"
  by code_simp

text \<open>
  C7. The number of frames written for a request is not always one. A login request
  is answered with two frames, the message that \<open>_login\<close> sends and the
  \<open>null\<close> that \<open>run\<close> sends for the value \<open>_login\<close> returns; a statistics
  request is answered with none.
\<close>

theorem frames_per_request:
  "sent (fst (run smtp order two_clients
      [Ready 1 (Message (Some AUTH_LOGIN) (Some (AuthPayload ''alice'' ''supersecret1'')))]))
     = [(1, Json_Message (GloMessage (Some ERROR) None)), (1, Json_Null)]
   \<and> sent (fst (run smtp order two_clients
      [Ready 1 (Message (Some STATS_REQUEST) (Some (StatsPayload 0 0)))]))
     = []"
  by (simp add: serve_def reply_def with_payload_def login_def send_msg_def dumps_def
        two_clients_def accept_client_def init_def)

text \<open>
  C8. A statistics request gets no response: \<open>run\<close> has no branch for
  \<open>STATS_REQUEST\<close>, so the request of the bound connection 1 leaves the state as it
  is. \<open>_get_stats\<close> itself looks for the directory named by the text of the socket
  object, not by the user name: for \<open>alice\<close>, with or without mail, it raises
  \<open>FileNotFoundError\<close>.
\<close>

theorem stats_request_not_answered:
  "run smtp order alice_registered [Ready 1 (Message (Some STATS_REQUEST) (Some (StatsPayload 0 0)))]
     = (alice_registered, Waiting)
   \<and> get_stats (\<lambda>soc. ''<socket.socket fd=4>'') getsize alice_registered 1
     = (alice_registered, Inl FileNotFoundError)
   \<and> get_stats (\<lambda>soc. ''<socket.socket fd=4>'') getsize alice_one_mail 1
     = (alice_one_mail, Inl FileNotFoundError)"
proof -
  have place: "email_place ''<socket.socket fd=4>'' = Entry ''<socket.socket fd=4>'' ''email''"
    by code_simp
  have "scandir alice_registered ''<socket.socket fd=4>'' = Inl FileNotFoundError"
    and "scandir alice_one_mail ''<socket.socket fd=4>'' = Inl FileNotFoundError"
    by (simp_all add: scandir_def place stat_place_def NAME_MAX_def
          alice_one_mail_eq alice_registered_eq)
  then show ?thesis
    by (simp add: serve_def get_stats_def)
qed

text \<open>
  C9. The list of emails follows the order in which the file system lists the mail
  directory, whatever that order is; nothing puts it in order of recency. \<open>alice\<close>
  has received \<open>first\<close> on 1 November and \<open>second\<close> on 2 November. Whenever
  the listing has \<open>first\<close> before \<open>second\<close>, she is shown \<open>first\<close> under the
  index 1 and \<open>second\<close> under the index 2, the oldest email first; only when the
  listing has \<open>second\<close> before \<open>first\<close> is the most recent one shown first.
\<close>

theorem email_list_follows_listdir:
  "get_email_list order alice_two_mails 1
     = (send_msg 1
          (Json_List
            (if order ''first'' \<le> order ''second''
             then [SUBJECT_DISPLAY 1 ''alice'' ''first'' ''2023-11-01 10:00:00'',
                   SUBJECT_DISPLAY 2 ''alice'' ''second'' ''2023-11-02 10:00:00'']
             else [SUBJECT_DISPLAY 1 ''alice'' ''second'' ''2023-11-02 10:00:00'',
                   SUBJECT_DISPLAY 2 ''alice'' ''first'' ''2023-11-01 10:00:00'']))
          alice_two_mails,
        Inr (Some (GloMessage None None)))"
proof -
  have place: "email_place ''alice'' = Entry ''alice'' ''email''"
    by (rule email_place_alice)
  have nom: "nom_client_loop [] (logged_users alice_two_mails) (Suc 0) = ''alice''"
    by (simp add: alice_two_mails_eq alice_registered_eq)
  have dir: "stat_place (data_dir alice_two_mails) (Entry ''alice'' ''email'')
     = Directory [(''first'', File (Json_Text first_mail)), (''second'', File (Json_Text second_mail))]"
    by (simp add: stat_place_def NAME_MAX_def alice_two_mails_eq alice_registered_eq
          PASSWORD_FILENAME_def)
  show ?thesis
    by (simp add: get_email_list_def Let_def nom place dir listdir_two json_load_def
          first_mail_def second_mail_def numeral_2_eq_2)
qed

end
